theory Spec2Isabelle
  imports Complex_Main "HOL-Library.Sublist" "HOL-Library.Log_Nat"
begin

section \<open>Python values used by the underwriting tool\<close>

text \<open>
  The program is a single Python module, \<^verbatim>\<open>app.py\<close>. Its functions work on Python
  floats, on \<^verbatim>\<open>None\<close>, on strings and on parsed JSON.

  Where the code only \<^emph>\<open>compares\<close> a float (the flood-risk thresholds, the bounding
  boxes) a float is a \<open>pyfloat\<close>: a finite value, one of the two infinities, or NaN,
  with Python's comparison, under which every comparison with NaN is false. A finite
  float is a rational number, so \<open>Fin x\<close> with \<open>x\<close> real covers every finite float (and
  every Python int that reaches these functions).

  Where the code \<^emph>\<open>calculates\<close> (distance to minutes, offsets of the exposure points)
  a function is given twice. Under the name it has in the source it calculates in the
  reals, with no rounding. With \<open>_f64\<close> added to its name it calculates as the program
  does, in binary64 floating point, every operation rounded to the nearest double.
\<close>

datatype pyfloat = NaN | NInf | Fin real | PInf

text \<open>Python's \<^verbatim>\<open><\<close> on floats.\<close>

fun flt :: "pyfloat \<Rightarrow> pyfloat \<Rightarrow> bool" where
  "flt NaN _ = False"
| "flt _ NaN = False"
| "flt PInf _ = False"
| "flt _ NInf = False"
| "flt NInf _ = True"
| "flt (Fin a) (Fin b) = (a < b)"
| "flt (Fin a) PInf = True"

text \<open>Python's \<^verbatim>\<open><=\<close> on floats.\<close>

fun fle :: "pyfloat \<Rightarrow> pyfloat \<Rightarrow> bool" where
  "fle NaN _ = False"
| "fle _ NaN = False"
| "fle NInf _ = True"
| "fle _ PInf = True"
| "fle PInf _ = False"
| "fle (Fin a) (Fin b) = (a \<le> b)"
| "fle (Fin a) NInf = False"

section \<open>Binary64 arithmetic\<close>

text \<open>
  A Python float and a numpy \<^verbatim>\<open>float64\<close> are IEEE 754 binary64 numbers (doubles), and
  each of \<^verbatim>\<open>+\<close>, \<^verbatim>\<open>-\<close>, \<^verbatim>\<open>*\<close> and \<^verbatim>\<open>/\<close> on them returns the double nearest to the exact
  result, a tie going to the double whose significand is even.

  A finite double is a real number, and \<open>round_f64 x\<close> is the double nearest to the real
  \<open>x\<close>. The doubles around \<open>x\<close> are \<open>f64_ulp x\<close> apart: \<open>2 ^ (e - 52)\<close> when
  \<open>2 ^ e \<le> \<bar>x\<bar> < 2 ^ (e + 1)\<close>, and \<open>2 ^ -1074\<close> below the normal range. Counted in
  units of \<open>2 ^ -1074\<close> that is \<open>2 ^ f64_ulp_exp x\<close>, where \<open>bitlen n\<close> is the number
  of binary digits of \<open>n\<close>. So \<open>x / f64_ulp x\<close> is \<open>x\<close> counted in these
  steps, and rounding it to an integer, a tie to the even one, gives the nearest
  double.

  Not modelled: the infinity that a result of magnitude \<open>2 ^ 1024\<close> or more becomes,
  and the sign of zero. The numbers of this program (coordinates, distances on the
  Earth, minutes) are far below \<open>2 ^ 1024\<close>.
\<close>

definition round_half_even :: "real \<Rightarrow> int" where
  "round_half_even y =
     (let f = \<lfloor>y\<rfloor>; d = y - of_int f
      in if d < 1 / 2 then f
         else if 1 / 2 < d then f + 1
         else if even f then f
         else f + 1)"

definition f64_ulp_exp :: "real \<Rightarrow> nat" where
  "f64_ulp_exp x = nat (max (bitlen \<lfloor>\<bar>x\<bar> * 2 ^ 1074\<rfloor> - 53) 0)"

definition f64_ulp :: "real \<Rightarrow> real" where
  "f64_ulp x = 2 ^ f64_ulp_exp x / 2 ^ 1074"

definition round_f64 :: "real \<Rightarrow> real" where
  "round_f64 x = of_int (round_half_even (x / f64_ulp x)) * f64_ulp x"



definition fmul :: "real \<Rightarrow> real \<Rightarrow> real" where
  "fmul x y = round_f64 (x * y)"

definition fdiv :: "real \<Rightarrow> real \<Rightarrow> real" where
  "fdiv x y = round_f64 (x / y)"

section \<open>Flood risk classification\<close>

text \<open>
  \<^verbatim>\<open>
  def classify_flood_risk(elevation):
      if elevation is None:
          return "Unknown"
      if elevation < 5:
          return "High Flood Risk"
      elif elevation < 15:
          return "Medium Flood Risk"
      else:
          return "Low Flood Risk"
  \<close>
  An absent elevation is \<open>None\<close>.
\<close>

fun classify_flood_risk :: "pyfloat option \<Rightarrow> string" where
  "classify_flood_risk None = ''Unknown''"
| "classify_flood_risk (Some elevation) =
     (if flt elevation (Fin 5) then ''High Flood Risk''
      else if flt elevation (Fin 15) then ''Medium Flood Risk''
      else ''Low Flood Risk'')"

text \<open>
  The severity order of the labels, \<open>High > Medium > Low\<close>, as ranks. \<open>Unknown\<close> is
  not part of the order and gets no rank.
\<close>

fun severity :: "string \<Rightarrow> nat option" where
  "severity l =
     (if l = ''High Flood Risk'' then Some 3
      else if l = ''Medium Flood Risk'' then Some 2
      else if l = ''Low Flood Risk'' then Some 1
      else None)"

section \<open>Urban flood zones\<close>

text \<open>
  \<^verbatim>\<open>
  flood_zones = [
      {"name": "Mumbai Flood Zone", "bounds": [(18.90, 72.75), (19.15, 72.95)]},
      {"name": "Chennai Flood Zone", "bounds": [(13.00, 80.20), (13.15, 80.30)]},
      {"name": "Kolkata Flood Zone", "bounds": [(22.45, 88.30), (22.60, 88.45)]},
      {"name": "Delhi Flood Zone", "bounds": [(28.55, 77.15), (28.75, 77.35)]},
      {"name": "Bengaluru Flood Zone", "bounds": [(12.90, 77.50), (13.05, 77.65)]},
  ]
  \<close>
  A zone is a dictionary with the two keys \<^verbatim>\<open>name\<close> and \<^verbatim>\<open>bounds\<close>; the bounds are
  the pair of the south-west and the north-east corner, each \<open>(lat, lon)\<close>.
\<close>

type_synonym bounds = "(pyfloat \<times> pyfloat) \<times> (pyfloat \<times> pyfloat)"

record zone =
  zone_name :: string
  zone_bounds :: bounds

definition flood_zones :: "zone list" where
  "flood_zones =
    [\<lparr>zone_name = ''Mumbai Flood Zone'',
       zone_bounds = ((Fin 18.90, Fin 72.75), (Fin 19.15, Fin 72.95))\<rparr>,
     \<lparr>zone_name = ''Chennai Flood Zone'',
       zone_bounds = ((Fin 13.00, Fin 80.20), (Fin 13.15, Fin 80.30))\<rparr>,
     \<lparr>zone_name = ''Kolkata Flood Zone'',
       zone_bounds = ((Fin 22.45, Fin 88.30), (Fin 22.60, Fin 88.45))\<rparr>,
     \<lparr>zone_name = ''Delhi Flood Zone'',
       zone_bounds = ((Fin 28.55, Fin 77.15), (Fin 28.75, Fin 77.35))\<rparr>,
     \<lparr>zone_name = ''Bengaluru Flood Zone'',
       zone_bounds = ((Fin 12.90, Fin 77.50), (Fin 13.05, Fin 77.65))\<rparr>]"

text \<open>
  \<^verbatim>\<open>
  def point_in_bounds(lat, lon, bounds):
      (lat_min, lon_min), (lat_max, lon_max) = bounds
      return lat_min <= lat <= lat_max and lon_min <= lon <= lon_max
  \<close>
\<close>

fun point_in_bounds :: "pyfloat \<Rightarrow> pyfloat \<Rightarrow> bounds \<Rightarrow> bool" where
  "point_in_bounds lat lon ((lat_min, lon_min), (lat_max, lon_max)) =
     ((fle lat_min lat \<and> fle lat lat_max) \<and> (fle lon_min lon \<and> fle lon lon_max))"

text \<open>
  \<^verbatim>\<open>
  def check_urban_flood_risk(lat, lon):
      for zone in flood_zones:
          if point_in_bounds(lat, lon, zone["bounds"]):
              return f"High Urban Flood Risk ({zone['name']})"
      return "Low Urban Flood Risk"
  \<close>
  The loop over the zones is \<open>scan_zones\<close>; the source function reads the module's
  list \<open>flood_zones\<close>.
\<close>

fun scan_zones :: "zone list \<Rightarrow> pyfloat \<Rightarrow> pyfloat \<Rightarrow> string" where
  "scan_zones [] lat lon = ''Low Urban Flood Risk''"
| "scan_zones (zone # zones) lat lon =
     (if point_in_bounds lat lon (zone_bounds zone)
      then ''High Urban Flood Risk ('' @ zone_name zone @ '')''
      else scan_zones zones lat lon)"

definition check_urban_flood_risk :: "pyfloat \<Rightarrow> pyfloat \<Rightarrow> string" where
  "check_urban_flood_risk lat lon = scan_zones flood_zones lat lon"

section \<open>Fire stations and the response time\<close>

text \<open>
  \<^verbatim>\<open>
  fire_stations = pd.DataFrame([
      {"name": "Mumbai Fire Station 1", "lat": 19.015, "lon": 72.85},
      {"name": "Mumbai Fire Station 2", "lat": 18.975, "lon": 72.81},
      {"name": "Chennai Fire Station 1", "lat": 13.080, "lon": 80.275},
      {"name": "Chennai Fire Station 2", "lat": 13.065, "lon": 80.250},
      {"name": "Kolkata Fire Station 1", "lat": 22.57, "lon": 88.36},
      {"name": "Kolkata Fire Station 2", "lat": 22.53, "lon": 88.38},
      {"name": "Delhi Fire Station 1", "lat": 28.65, "lon": 77.20},
      {"name": "Delhi Fire Station 2", "lat": 28.62, "lon": 77.22},
      {"name": "Bengaluru Fire Station 1", "lat": 12.98, "lon": 77.58},
      {"name": "Bengaluru Fire Station 2", "lat": 12.95, "lon": 77.60},
  ])
  \<close>
  The data frame is the list of its rows, in row order, which is the order
  \<^verbatim>\<open>iterrows()\<close> visits them in.
\<close>

record fire_station =
  fs_name :: string
  fs_lat :: real
  fs_lon :: real

definition fire_stations :: "fire_station list" where
  "fire_stations =
    [\<lparr>fs_name = ''Mumbai Fire Station 1'', fs_lat = 19.015, fs_lon = 72.85\<rparr>,
     \<lparr>fs_name = ''Mumbai Fire Station 2'', fs_lat = 18.975, fs_lon = 72.81\<rparr>,
     \<lparr>fs_name = ''Chennai Fire Station 1'', fs_lat = 13.080, fs_lon = 80.275\<rparr>,
     \<lparr>fs_name = ''Chennai Fire Station 2'', fs_lat = 13.065, fs_lon = 80.250\<rparr>,
     \<lparr>fs_name = ''Kolkata Fire Station 1'', fs_lat = 22.57, fs_lon = 88.36\<rparr>,
     \<lparr>fs_name = ''Kolkata Fire Station 2'', fs_lat = 22.53, fs_lon = 88.38\<rparr>,
     \<lparr>fs_name = ''Delhi Fire Station 1'', fs_lat = 28.65, fs_lon = 77.20\<rparr>,
     \<lparr>fs_name = ''Delhi Fire Station 2'', fs_lat = 28.62, fs_lon = 77.22\<rparr>,
     \<lparr>fs_name = ''Bengaluru Fire Station 1'', fs_lat = 12.98, fs_lon = 77.58\<rparr>,
     \<lparr>fs_name = ''Bengaluru Fire Station 2'', fs_lat = 12.95, fs_lon = 77.60\<rparr>]"

text \<open>
  \<^verbatim>\<open>geodesic((lat, lon), (fs.lat, fs.lon)).km\<close> is a function of the library geopy, not of
  this repository: the distance in kilometres between two points. The model takes it
  as the parameter \<open>geodesic_km\<close>, a total function: geopy's refusal of a latitude
  outside the range from -90 to 90 is not modelled (the page's input fields keep the
  latitude between 6 and 37).
\<close>

type_synonym point = "real \<times> real"
type_synonym geodesic = "point \<Rightarrow> point \<Rightarrow> real"

text \<open>
  Python's \<^verbatim>\<open>round(x, 1)\<close>: to the nearest multiple of one tenth, a tie going to the even
  neighbour.
\<close>

definition py_round1 :: "real \<Rightarrow> real" where
  "py_round1 x =
     (let y = x * 10; f = \<lfloor>y\<rfloor>; d = y - of_int f
      in (if d < 1 / 2 then of_int f
          else if 1 / 2 < d then of_int f + 1
          else if even f then of_int f
          else of_int f + 1) / 10)"

text \<open>
  \<^verbatim>\<open>
  def estimate_response_time(lat, lon):
      min_time = None
      closest_station = None
      for _, fs in fire_stations.iterrows():
          dist_km = geodesic((lat, lon), (fs.lat, fs.lon)).km
          time_min = dist_km / 40 * 60  # Assuming avg 40 km/h speed to minutes
          if min_time is None or time_min < min_time:
              min_time = time_min
              closest_station = fs["name"]
      return closest_station, round(min_time, 1) if min_time else None
  \<close>
  The loop is \<open>station_loop\<close>, on the pair \<open>(min_time, closest_station)\<close> of the two
  local variables. The conditional expression of the last line binds tighter than the
  comma: the second component is \<^verbatim>\<open>round(min_time, 1) if min_time else None\<close>. Its
  condition is the truth value of \<^verbatim>\<open>min_time\<close>, which is false for \<^verbatim>\<open>None\<close> and for
  \<^verbatim>\<open>0.0\<close>.

  The source function reads the module's registry \<open>fire_stations\<close>;
  \<open>estimate_response_time_of\<close> is the same function of any registry.
\<close>

fun station_loop ::
  "geodesic \<Rightarrow> real \<Rightarrow> real \<Rightarrow> fire_station list \<Rightarrow> real option \<times> string option
     \<Rightarrow> real option \<times> string option" where
  "station_loop geodesic_km lat lon [] (min_time, closest_station) =
     (min_time, closest_station)"
| "station_loop geodesic_km lat lon (fs # rest) (min_time, closest_station) =
     (let dist_km = geodesic_km (lat, lon) (fs_lat fs, fs_lon fs);
          time_min = dist_km / 40 * 60
      in if (case min_time of None \<Rightarrow> True | Some m \<Rightarrow> time_min < m)
         then station_loop geodesic_km lat lon rest (Some time_min, Some (fs_name fs))
         else station_loop geodesic_km lat lon rest (min_time, closest_station))"

definition estimate_response_time_of ::
  "geodesic \<Rightarrow> fire_station list \<Rightarrow> real \<Rightarrow> real \<Rightarrow> string option \<times> real option" where
  "estimate_response_time_of geodesic_km stations lat lon =
     (case station_loop geodesic_km lat lon stations (None, None) of
        (min_time, closest_station) \<Rightarrow>
          (closest_station,
           case min_time of
             None \<Rightarrow> None
           | Some m \<Rightarrow> if m \<noteq> 0 then Some (py_round1 m) else None))"

definition estimate_response_time ::
  "geodesic \<Rightarrow> real \<Rightarrow> real \<Rightarrow> string option \<times> real option" where
  "estimate_response_time geodesic_km lat lon =
     estimate_response_time_of geodesic_km fire_stations lat lon"


text \<open>
  A simple distance to instantiate the parameter with where a statement is evaluated on
  concrete coordinates: the taxicab distance in degrees, at 111 km per degree. It is
  not geopy's ellipsoidal distance, but like it is never negative and is zero from a
  point to itself.
\<close>

definition taxicab_km :: geodesic where
  "taxicab_km p q = 111 * (\<bar>fst p - fst q\<bar> + \<bar>snd p - snd q\<bar>)"

text \<open>
  The same function with the arithmetic of the program. \<^verbatim>\<open>dist_km / 40 * 60\<close> is a
  division of doubles and then a multiplication of doubles, each rounded, and the
  comparison \<^verbatim>\<open>time_min < min_time\<close> is of the two rounded times. \<^verbatim>\<open>round(min_time, 1)\<close>
  returns the double nearest to the decimal that \<open>py_round1\<close> gives.
\<close>

fun station_loop_f64 ::
  "geodesic \<Rightarrow> real \<Rightarrow> real \<Rightarrow> fire_station list \<Rightarrow> real option \<times> string option
     \<Rightarrow> real option \<times> string option" where
  "station_loop_f64 geodesic_km lat lon [] (min_time, closest_station) =
     (min_time, closest_station)"
| "station_loop_f64 geodesic_km lat lon (fs # rest) (min_time, closest_station) =
     (let dist_km = geodesic_km (lat, lon) (fs_lat fs, fs_lon fs);
          time_min = fmul (fdiv dist_km 40) 60
      in if (case min_time of None \<Rightarrow> True | Some m \<Rightarrow> time_min < m)
         then station_loop_f64 geodesic_km lat lon rest (Some time_min, Some (fs_name fs))
         else station_loop_f64 geodesic_km lat lon rest (min_time, closest_station))"

definition estimate_response_time_of_f64 ::
  "geodesic \<Rightarrow> fire_station list \<Rightarrow> real \<Rightarrow> real \<Rightarrow> string option \<times> real option" where
  "estimate_response_time_of_f64 geodesic_km stations lat lon =
     (case station_loop_f64 geodesic_km lat lon stations (None, None) of
        (min_time, closest_station) \<Rightarrow>
          (closest_station,
           case min_time of
             None \<Rightarrow> None
           | Some m \<Rightarrow> if m \<noteq> 0 then Some (round_f64 (py_round1 m)) else None))"

definition estimate_response_time_f64 ::
  "geodesic \<Rightarrow> real \<Rightarrow> real \<Rightarrow> string option \<times> real option" where
  "estimate_response_time_f64 geodesic_km lat lon =
     estimate_response_time_of_f64 geodesic_km fire_stations lat lon"







section \<open>Exceptions\<close>

text \<open>
  The exceptions that the modelled operations raise. All but \<open>KeyboardInterrupt\<close> are
  subclasses of Python's \<^verbatim>\<open>Exception\<close>, which is what \<^verbatim>\<open>except Exception\<close> catches.
\<close>

datatype py_exn =
    RequestException
  | HTTPError nat
  | JSONDecodeError
  | AttributeError
  | TypeError
  | KeyError
  | IndexError
  | ValueError
  | KeyboardInterrupt

fun is_Exception :: "py_exn \<Rightarrow> bool" where
  "is_Exception KeyboardInterrupt = False"
| "is_Exception _ = True"

text \<open>Sequencing of operations that may raise: the first exception ends the block.\<close>

fun and_then :: "py_exn + 'a \<Rightarrow> ('a \<Rightarrow> py_exn + 'b) \<Rightarrow> py_exn + 'b" where
  "and_then (Inl e) f = Inl e"
| "and_then (Inr x) f = f x"

section \<open>Surrounding exposure\<close>

text \<open>
  \<^verbatim>\<open>
  def generate_surrounding_exposure(lat, lon, num_points=5):
      np.random.seed(42)
      lats = lat + (np.random.rand(num_points) - 0.5) / 100
      lons = lon + (np.random.rand(num_points) - 0.5) / 100
      risk_levels = np.random.choice(["Low", "Medium", "High"], num_points)
      df = pd.DataFrame({"lat": lats, "lon": lons, "risk": risk_levels})
      return df
  \<close>
  numpy's generator is a library, and it is global mutable state. The model passes the
  state of the generator, of a type \<open>'g\<close>, in and out, and takes the three operations
  the code calls as a record of functions of that state:
  \<^item> \<open>np_seed n g\<close> is the state after \<^verbatim>\<open>np.random.seed(n)\<close> in state \<open>g\<close>;
  \<^item> \<open>np_rand n g\<close> is the array \<^verbatim>\<open>np.random.rand(n)\<close> returns in state \<open>g\<close>, and the state
    after the call;
  \<^item> \<open>np_choice xs n g\<close> is the same for \<^verbatim>\<open>np.random.choice(xs, n)\<close>.
  What numpy promises of them is stated as hypotheses where a theorem needs it
  (\<open>seed_resets\<close>, \<open>draws_ok\<close>). numpy refuses a negative size with a \<^verbatim>\<open>ValueError\<close>; the
  seed is set by then.
\<close>

record 'g np_random =
  np_seed :: "nat \<Rightarrow> 'g \<Rightarrow> 'g"
  np_rand :: "nat \<Rightarrow> 'g \<Rightarrow> real list \<times> 'g"
  np_choice :: "string list \<Rightarrow> nat \<Rightarrow> 'g \<Rightarrow> string list \<times> 'g"

record exposure_point =
  ex_lat :: real
  ex_lon :: real
  ex_risk :: string

text \<open>
  \<^verbatim>\<open>pd.DataFrame({"lat": lats, "lon": lons, "risk": risk_levels})\<close>: one row per index;
  pandas raises a \<^verbatim>\<open>ValueError\<close> when the columns differ in length.
\<close>

fun rows_of :: "real list \<Rightarrow> real list \<Rightarrow> string list \<Rightarrow> exposure_point list" where
  "rows_of (a # as) (b # bs) (c # cs) =
     \<lparr>ex_lat = a, ex_lon = b, ex_risk = c\<rparr> # rows_of as bs cs"
| "rows_of _ _ _ = []"

definition DataFrame ::
  "real list \<Rightarrow> real list \<Rightarrow> string list \<Rightarrow> py_exn + exposure_point list" where
  "DataFrame lats lons risk_levels =
     (if length lats = length lons \<and> length lons = length risk_levels
      then Inr (rows_of lats lons risk_levels)
      else Inl ValueError)"

definition generate_surrounding_exposure ::
  "'g np_random \<Rightarrow> 'g \<Rightarrow> real \<Rightarrow> real \<Rightarrow> int \<Rightarrow> (py_exn + exposure_point list) \<times> 'g" where
  "generate_surrounding_exposure np g lat lon num_points =
     (let g1 = np_seed np 42 g
      in if num_points < 0 then (Inl ValueError, g1)
         else
           (case np_rand np (nat num_points) g1 of
              (r1, g2) \<Rightarrow>
                (let lats = map (\<lambda>r. lat + (r - 0.5) / 100) r1
                 in case np_rand np (nat num_points) g2 of
                      (r2, g3) \<Rightarrow>
                        (let lons = map (\<lambda>r. lon + (r - 0.5) / 100) r2
                         in case np_choice np [''Low'', ''Medium'', ''High''] (nat num_points) g3 of
                              (risk_levels, g4) \<Rightarrow>
                                (DataFrame lats lons risk_levels, g4)))))"

text \<open>
  What the code relies on from numpy. Seeding forgets the state it finds: the state
  after \<^verbatim>\<open>np.random.seed(n)\<close> is a function of \<open>n\<close> alone.
\<close>

definition seed_resets :: "'g np_random \<Rightarrow> bool" where
  "seed_resets np = (\<forall>n g g'. np_seed np n g = np_seed np n g')"


text \<open>
  A small generator to instantiate the parameter with where a statement is evaluated: a
  counter as its state, the digits of the counter as the numbers drawn. It is not
  numpy's Mersenne twister; it keeps what \<open>seed_resets\<close> and \<open>draws_ok\<close> ask for.
\<close>

fun counter_rand :: "nat \<Rightarrow> nat \<Rightarrow> real list \<times> nat" where
  "counter_rand 0 g = ([], g)"
| "counter_rand (Suc n) g =
     (case counter_rand n (Suc g) of (rs, g') \<Rightarrow> (real (g mod 10) / 10 # rs, g'))"

fun counter_choice :: "string list \<Rightarrow> nat \<Rightarrow> nat \<Rightarrow> string list \<times> nat" where
  "counter_choice xs 0 g = ([], g)"
| "counter_choice xs (Suc n) g =
     (case counter_choice xs n (Suc g) of
        (cs, g') \<Rightarrow> ((if xs = [] then [] else xs ! (g mod length xs)) # cs, g'))"

definition counter_random :: "nat np_random" where
  "counter_random =
     \<lparr>np_seed = (\<lambda>n g. n), np_rand = counter_rand, np_choice = counter_choice\<rparr>"






section \<open>The PDF report\<close>

text \<open>
  \<^verbatim>\<open>
  def create_pdf_report(lat, lon, elevation, flood_risk, urban_flood, fire_station,
                        response_time, exposure_df):
      pdf = FPDF()
      pdf.add_page()
      pdf.set_font("Arial", "B", 16)
      pdf.cell(0, 10, "Property Insurance Underwriting Risk Analysis Report", ln=True, align="C")

      pdf.ln(10)
      pdf.set_font("Arial", "", 12)
      pdf.cell(0, 10, f"Location Coordinates: Latitude {lat:.6f}, Longitude {lon:.6f}", ln=True)
      pdf.cell(0, 10, f"Elevation: {elevation if elevation is not None else 'N/A'} meters", ln=True)
      pdf.cell(0, 10, f"Flood Risk (Elevation Based): {flood_risk}", ln=True)
      pdf.cell(0, 10, f"Urban Flood Risk Zone: {urban_flood}", ln=True)
      pdf.cell(0, 10, f"Nearest Fire Station: {fire_station}", ln=True)
      pdf.cell(0, 10, f"Fire Brigade Response Time Estimate: {response_time} minutes", ln=True)

      pdf.ln(10)
      pdf.cell(0, 10, "Nearby Properties Exposure Risk:", ln=True)

      pdf.set_font("Arial", "", 10)
      pdf.cell(40, 10, "Latitude", 1)
      pdf.cell(40, 10, "Longitude", 1)
      pdf.cell(40, 10, "Risk Level", 1)
      pdf.ln()

      for _, row in exposure_df.iterrows():
          pdf.cell(40, 10, f"{row['lat']:.6f}", 1)
          pdf.cell(40, 10, f"{row['lon']:.6f}", 1)
          pdf.cell(40, 10, row["risk"], 1)
          pdf.ln()

      pdf_output = io.BytesIO()
      pdf.output(pdf_output)
      pdf_output.seek(0)
      return pdf_output
  \<close>
  The report is the sequence of calls made on the \<^verbatim>\<open>FPDF\<close> object, which fixes what the
  library draws; the bytes it encodes them to are the library's. A cell is
  \<open>Cell w h txt border ln align\<close>, with the library's defaults: no border, no line
  break, no alignment.

  Formatting a float is Python's: \<open>fmt6f\<close> stands for the format \<^verbatim>\<open>:.6f\<close> and \<open>str_float\<close>
  for the plain conversion that an f-string applies. An f-string writes \<^verbatim>\<open>None\<close> as the
  four letters \<^verbatim>\<open>None\<close>.
\<close>

datatype pdf_cmd =
    Add_page
  | Set_font string string nat
  | Cell nat nat string nat bool string
  | Ln "nat option"

fun fstr_opt :: "('a \<Rightarrow> string) \<Rightarrow> 'a option \<Rightarrow> string" where
  "fstr_opt str None = ''None''"
| "fstr_opt str (Some x) = str x"

fun exposure_rows :: "(real \<Rightarrow> string) \<Rightarrow> exposure_point list \<Rightarrow> pdf_cmd list" where
  "exposure_rows fmt6f [] = []"
| "exposure_rows fmt6f (row # rows) =
     [Cell 40 10 (fmt6f (ex_lat row)) 1 False [],
      Cell 40 10 (fmt6f (ex_lon row)) 1 False [],
      Cell 40 10 (ex_risk row) 1 False [],
      Ln None] @ exposure_rows fmt6f rows"

definition create_pdf_report ::
  "(real \<Rightarrow> string) \<Rightarrow> (real \<Rightarrow> string) \<Rightarrow> real \<Rightarrow> real \<Rightarrow> real option \<Rightarrow> string \<Rightarrow> string
     \<Rightarrow> string option \<Rightarrow> real option \<Rightarrow> exposure_point list \<Rightarrow> pdf_cmd list" where
  "create_pdf_report fmt6f str_float lat lon elevation flood_risk urban_flood fire_station
       response_time exposure_df =
     [Add_page,
      Set_font ''Arial'' ''B'' 16,
      Cell 0 10 ''Property Insurance Underwriting Risk Analysis Report'' 0 True ''C'',
      Ln (Some 10),
      Set_font ''Arial'' [] 12,
      Cell 0 10 (''Location Coordinates: Latitude '' @ fmt6f lat @ '', Longitude '' @ fmt6f lon)
        0 True [],
      Cell 0 10 (''Elevation: ''
                 @ (case elevation of None \<Rightarrow> ''N/A'' | Some e \<Rightarrow> str_float e)
                 @ '' meters'') 0 True [],
      Cell 0 10 (''Flood Risk (Elevation Based): '' @ flood_risk) 0 True [],
      Cell 0 10 (''Urban Flood Risk Zone: '' @ urban_flood) 0 True [],
      Cell 0 10 (''Nearest Fire Station: '' @ fstr_opt id fire_station) 0 True [],
      Cell 0 10 (''Fire Brigade Response Time Estimate: '' @ fstr_opt str_float response_time
                 @ '' minutes'') 0 True [],
      Ln (Some 10),
      Cell 0 10 ''Nearby Properties Exposure Risk:'' 0 True [],
      Set_font ''Arial'' [] 10,
      Cell 40 10 ''Latitude'' 1 False [],
      Cell 40 10 ''Longitude'' 1 False [],
      Cell 40 10 ''Risk Level'' 1 False [],
      Ln None]
     @ exposure_rows fmt6f exposure_df"

text \<open>The texts of the report, in the order they are written.\<close>

fun cell_texts :: "pdf_cmd list \<Rightarrow> string list" where
  "cell_texts [] = []"
| "cell_texts (Cell w h txt border newline align # cmds) = txt # cell_texts cmds"
| "cell_texts (_ # cmds) = cell_texts cmds"

text \<open>The text of the field that a label starts, if the report has one.\<close>

definition report_field :: "string \<Rightarrow> pdf_cmd list \<Rightarrow> string option" where
  "report_field label cmds = find (prefix label) (cell_texts cmds)"

section \<open>The elevation lookup\<close>

text \<open>
  \<^verbatim>\<open>
  def get_elevation(lat, lon):
      try:
          url = f"https://api.open-elevation.com/api/v1/lookup?locations={lat},{lon}"
          r = requests.get(url)
          r.raise_for_status()
          results = r.json().get("results")
          if results and len(results) > 0:
              return results[0].get("elevation")
      except Exception as e:
          st.error(f"Error fetching elevation data: {e}")
      return None
  \<close>
  A value that \<^verbatim>\<open>r.json()\<close> returns is a \<open>pyval\<close>: \<^verbatim>\<open>None\<close>, a boolean, a number, a
  string, a list, or a dictionary with strings as keys (its items in a list, a key
  at most once).
\<close>

datatype pyval =
    PNone
  | PBool bool
  | PNum pyfloat
  | PStr string
  | PList "pyval list"
  | PDict "(string \<times> pyval) list"

text \<open>The truth value of a Python value, as \<^verbatim>\<open>if results\<close> takes it.\<close>

fun py_truthy :: "pyval \<Rightarrow> bool" where
  "py_truthy PNone = False"
| "py_truthy (PBool b) = b"
| "py_truthy (PNum x) = (x \<noteq> Fin 0)"
| "py_truthy (PStr s) = (s \<noteq> [])"
| "py_truthy (PList xs) = (xs \<noteq> [])"
| "py_truthy (PDict kvs) = (kvs \<noteq> [])"

text \<open>
  \<^verbatim>\<open>x.get(key)\<close>: only a dictionary has the method; a key that is missing gives
  \<^verbatim>\<open>None\<close>.
\<close>

fun py_get :: "pyval \<Rightarrow> string \<Rightarrow> py_exn + pyval" where
  "py_get (PDict kvs) key = Inr (case map_of kvs key of None \<Rightarrow> PNone | Some v \<Rightarrow> v)"
| "py_get _ key = Inl AttributeError"

text \<open>\<^verbatim>\<open>len(x)\<close>: of a string, a list or a dictionary.\<close>

fun py_len :: "pyval \<Rightarrow> py_exn + nat" where
  "py_len (PStr s) = Inr (length s)"
| "py_len (PList xs) = Inr (length xs)"
| "py_len (PDict kvs) = Inr (length kvs)"
| "py_len _ = Inl TypeError"

text \<open>
  \<^verbatim>\<open>x[0]\<close>: the first element of a list or the first character of a string; in a
  dictionary of string keys the key \<open>0\<close> is missing.
\<close>

fun py_item0 :: "pyval \<Rightarrow> py_exn + pyval" where
  "py_item0 (PList []) = Inl IndexError"
| "py_item0 (PList (x # xs)) = Inr x"
| "py_item0 (PStr []) = Inl IndexError"
| "py_item0 (PStr (c # s)) = Inr (PStr [c])"
| "py_item0 (PDict kvs) = Inl KeyError"
| "py_item0 _ = Inl TypeError"

text \<open>
  What \<^verbatim>\<open>requests.get(url)\<close> meets is the environment's: either the request fails in
  transport (a \<^verbatim>\<open>RequestException\<close>), or a response comes back, with its status code and
  with the value its body parses to as JSON, if it parses. The model takes the
  environment as the parameter \<open>requests_get\<close>, from the URL to the outcome.
\<close>

datatype http_outcome =
    Transport_failure
  | Response nat "pyval option"

text \<open>\<^verbatim>\<open>r.raise_for_status()\<close> raises on the status codes from 400 to 599.\<close>

fun raise_for_status :: "nat \<Rightarrow> py_exn + unit" where
  "raise_for_status status =
     (if 400 \<le> status \<and> status < 600 then Inl (HTTPError status) else Inr ())"

fun json_of :: "pyval option \<Rightarrow> py_exn + pyval" where
  "json_of None = Inl JSONDecodeError"
| "json_of (Some v) = Inr v"

text \<open>
  The body of the \<^verbatim>\<open>try\<close>: it raises, or returns a value (\<open>Some\<close>), or falls through to
  the end of the block (\<open>None\<close>).
\<close>

definition get_elevation_try ::
  "(string \<Rightarrow> http_outcome) \<Rightarrow> string \<Rightarrow> py_exn + pyval option" where
  "get_elevation_try requests_get url =
     (case requests_get url of
        Transport_failure \<Rightarrow> Inl RequestException
      | Response status body \<Rightarrow>
          and_then (raise_for_status status) (\<lambda>_.
          and_then (json_of body) (\<lambda>j.
          and_then (py_get j ''results'') (\<lambda>results.
            if py_truthy results
            then and_then (py_len results) (\<lambda>n.
                   if 0 < n
                   then and_then (py_item0 results) (\<lambda>r0.
                        and_then (py_get r0 ''elevation'') (\<lambda>v. Inr (Some v)))
                   else Inr None)
            else Inr None))))"

text \<open>
  A call of \<^verbatim>\<open>st.error\<close> shows a message on the page and returns; the messages shown so
  far are a list, and \<open>St_error e\<close> is the message made from the exception \<open>e\<close>.
  \<open>get_elevation\<close> returns the value and the messages, or lets an exception through
  (\<open>Inl\<close>) when the handler does not catch it. \<open>str_float\<close> is Python's conversion of a
  float in the f-string of the URL, \<open>lookup_url\<close>.
\<close>

datatype ui_event = St_error py_exn

definition lookup_url :: "(real \<Rightarrow> string) \<Rightarrow> real \<Rightarrow> real \<Rightarrow> string" where
  "lookup_url str_float lat lon =
     ''https://api.open-elevation.com/api/v1/lookup?locations=''
     @ str_float lat @ '','' @ str_float lon"

definition get_elevation ::
  "(string \<Rightarrow> http_outcome) \<Rightarrow> (real \<Rightarrow> string) \<Rightarrow> real \<Rightarrow> real \<Rightarrow> ui_event list
     \<Rightarrow> py_exn + pyval \<times> ui_event list" where
  "get_elevation requests_get str_float lat lon shown =
     (case get_elevation_try requests_get (lookup_url str_float lat lon) of
        Inl e \<Rightarrow> if is_Exception e then Inr (PNone, shown @ [St_error e]) else Inl e
      | Inr (Some v) \<Rightarrow> Inr (v, shown)
      | Inr None \<Rightarrow> Inr (PNone, shown))"

text \<open>Whether a call that started with the messages \<open>shown\<close> returned and added one.\<close>

definition surfaces_warning :: "ui_event list \<Rightarrow> py_exn + pyval \<times> ui_event list \<Rightarrow> bool" where
  "surfaces_warning shown result =
     (case result of Inl e \<Rightarrow> False | Inr (v, shown') \<Rightarrow> length shown < length shown')"

text \<open>
  To instantiate the two parameters with where a statement is evaluated: a service that
  gives every request the same outcome, and a conversion of floats that is not
  Python's (no statement depends on the digits).
\<close>

definition service_answering :: "http_outcome \<Rightarrow> string \<Rightarrow> http_outcome" where
  "service_answering outcome url = outcome"

definition str_float_stub :: "real \<Rightarrow> string" where
  "str_float_stub x = (if x < 0 then ''-'' else []) @ ''1.0''"

section \<open>Properties of the binary64 arithmetic\<close>

text \<open>Rounding to an integer: within a half, between floor and ceiling, monotone, odd.\<close>

lemma round_half_even_cases:
  "round_half_even y = \<lfloor>y\<rfloor> \<and> y - of_int \<lfloor>y\<rfloor> \<le> 1 / 2
   \<or> round_half_even y = \<lfloor>y\<rfloor> + 1 \<and> 1 / 2 \<le> y - of_int \<lfloor>y\<rfloor>"
  by (auto simp add: round_half_even_def Let_def)

lemma round_half_even_ge_floor: "\<lfloor>y\<rfloor> \<le> round_half_even y"
  using round_half_even_cases [of y] by linarith








text \<open>The spacing of the doubles.\<close>

lemma f64_ulp_pos: "0 < f64_ulp x"
  by (simp add: f64_ulp_def)





lemma round_f64_zero [simp]: "round_f64 0 = 0"
  by (simp add: round_f64_def round_half_even_def)


lemma round_f64_nonneg:
  assumes "0 \<le> x"
  shows "0 \<le> round_f64 x"
proof -
  from assms f64_ulp_pos [of x] have "0 \<le> x / f64_ulp x"
    by simp
  then have "0 \<le> \<lfloor>x / f64_ulp x\<rfloor>"
    by simp
  with round_half_even_ge_floor [of "x / f64_ulp x"] have "0 \<le> round_half_even (x / f64_ulp x)"
    by linarith
  with f64_ulp_pos [of x] show ?thesis
    by (simp add: round_f64_def)
qed













section \<open>Properties of the flood risk classifier\<close>

text \<open>Facts about Python's comparisons that the proofs use.\<close>

lemma fle_not_flt: "fle a b \<Longrightarrow> \<not> flt b a"
  by (cases a; cases b) auto

lemma not_flt_Fin: "flt e1 e2 \<Longrightarrow> \<not> flt e1 (Fin c) \<Longrightarrow> \<not> flt e2 (Fin c)"
  by (cases e1; cases e2) auto

text \<open>
  Claim C3. The classifier maps an absent elevation to \<open>Unknown\<close>, and its thresholds
  are exact: 4.999 is High, 5.0 is Medium, 14.999 is Medium, 15.0 is Low; for every
  float, an elevation below 5 is High, one from 5 and below 15 is Medium, one from 15 is
  Low. (The floats include the infinities and NaN; NaN meets none of the three
  conditions.)
\<close>

theorem classify_flood_risk_thresholds:
  "classify_flood_risk None = ''Unknown''
   \<and> classify_flood_risk (Some (Fin 4.999)) = ''High Flood Risk''
   \<and> classify_flood_risk (Some (Fin 5.0)) = ''Medium Flood Risk''
   \<and> classify_flood_risk (Some (Fin 14.999)) = ''Medium Flood Risk''
   \<and> classify_flood_risk (Some (Fin 15.0)) = ''Low Flood Risk''
   \<and> (\<forall>e. flt e (Fin 5) \<longrightarrow> classify_flood_risk (Some e) = ''High Flood Risk'')
   \<and> (\<forall>e. fle (Fin 5) e \<and> flt e (Fin 15)
          \<longrightarrow> classify_flood_risk (Some e) = ''Medium Flood Risk'')
   \<and> (\<forall>e. fle (Fin 15) e \<longrightarrow> classify_flood_risk (Some e) = ''Low Flood Risk'')"
proof -
  have high: "classify_flood_risk (Some e) = ''High Flood Risk''" if "flt e (Fin 5)" for e
    using that by simp
  have medium: "classify_flood_risk (Some e) = ''Medium Flood Risk''"
    if "fle (Fin 5) e" "flt e (Fin 15)" for e
    using that fle_not_flt [of "Fin 5" e] by simp
  have low: "classify_flood_risk (Some e) = ''Low Flood Risk''" if "fle (Fin 15) e" for e
  proof -
    have "\<not> flt e (Fin 15)"
      using that by (rule fle_not_flt)
    moreover have "\<not> flt e (Fin 5)"
      using that by (cases e) auto
    ultimately show ?thesis by simp
  qed
  show ?thesis
    using high medium low by simp
qed

text \<open>The thresholds theorem at concrete elevations, its hypotheses met.\<close>

theorem classify_flood_risk_thresholds_witness:
  "flt NInf (Fin 5) \<and> classify_flood_risk (Some NInf) = ''High Flood Risk''
   \<and> flt (Fin (-2)) (Fin 5) \<and> classify_flood_risk (Some (Fin (-2))) = ''High Flood Risk''
   \<and> fle (Fin 5) (Fin 7.5) \<and> flt (Fin 7.5) (Fin 15)
   \<and> classify_flood_risk (Some (Fin 7.5)) = ''Medium Flood Risk''
   \<and> fle (Fin 15) PInf \<and> classify_flood_risk (Some PInf) = ''Low Flood Risk''"
proof -
  have below: "flt NInf (Fin 5)" "flt (Fin (-2)) (Fin 5)"
    by simp_all
  have between: "fle (Fin 5) (Fin 7.5) \<and> flt (Fin 7.5) (Fin 15)"
    by simp
  have above: "fle (Fin 15) PInf"
    by simp
  from classify_flood_risk_thresholds below
  have "classify_flood_risk (Some NInf) = ''High Flood Risk''"
    and "classify_flood_risk (Some (Fin (-2))) = ''High Flood Risk''"
    by blast+
  moreover from classify_flood_risk_thresholds between
  have "classify_flood_risk (Some (Fin 7.5)) = ''Medium Flood Risk''"
    by blast
  moreover from classify_flood_risk_thresholds above
  have "classify_flood_risk (Some PInf) = ''Low Flood Risk''"
    by blast
  ultimately show ?thesis
    using below between above by blast
qed

text \<open>
  Claim C4. The classifier is total on a float or an absent value, and monotonic in
  the order \<open>High > Medium > Low\<close>: it always returns one of its four labels, an
  absent elevation is \<open>Unknown\<close>, and of two elevations \<open>e1 < e2\<close> the label of \<open>e1\<close>
  is never less severe than the label of \<open>e2\<close>.
\<close>

theorem classify_flood_risk_monotone:
  "classify_flood_risk None = ''Unknown''
   \<and> (\<forall>e. classify_flood_risk e = ''Unknown''
          \<or> classify_flood_risk e = ''High Flood Risk''
          \<or> classify_flood_risk e = ''Medium Flood Risk''
          \<or> classify_flood_risk e = ''Low Flood Risk'')
   \<and> (\<forall>e1 e2. flt e1 e2 \<longrightarrow>
         (\<exists>s1 s2. severity (classify_flood_risk (Some e1)) = Some s1
                 \<and> severity (classify_flood_risk (Some e2)) = Some s2
                 \<and> s2 \<le> s1))"
proof -
  have total: "classify_flood_risk e = ''Unknown''
          \<or> classify_flood_risk e = ''High Flood Risk''
          \<or> classify_flood_risk e = ''Medium Flood Risk''
          \<or> classify_flood_risk e = ''Low Flood Risk''" for e
    by (cases e) simp_all
  have mono: "\<exists>s1 s2. severity (classify_flood_risk (Some e1)) = Some s1
                 \<and> severity (classify_flood_risk (Some e2)) = Some s2
                 \<and> s2 \<le> s1" if lt: "flt e1 e2" for e1 e2
  proof (cases "flt e1 (Fin 5)")
    case True
    then show ?thesis by simp
  next
    case high1: False
    then have high2: "\<not> flt e2 (Fin 5)"
      using lt not_flt_Fin by blast
    show ?thesis
    proof (cases "flt e1 (Fin 15)")
      case True
      with high1 high2 show ?thesis by simp
    next
      case False
      then have "\<not> flt e2 (Fin 15)"
        using lt not_flt_Fin by blast
      with False high1 high2 show ?thesis by simp
    qed
  qed
  show ?thesis
    using total mono by simp
qed

text \<open>The monotonicity theorem at concrete pairs of elevations.\<close>

theorem classify_flood_risk_monotone_witness:
  "flt (Fin 3) (Fin 20)
   \<and> (\<exists>s1 s2. severity (classify_flood_risk (Some (Fin 3))) = Some s1
               \<and> severity (classify_flood_risk (Some (Fin 20))) = Some s2
               \<and> s2 \<le> s1)
   \<and> flt (Fin 4.999) (Fin 5)
   \<and> (\<exists>s1 s2. severity (classify_flood_risk (Some (Fin 4.999))) = Some s1
               \<and> severity (classify_flood_risk (Some (Fin 5))) = Some s2
               \<and> s2 \<le> s1)"
proof -
  have far: "flt (Fin 3) (Fin 20)"
    by simp
  have near: "flt (Fin 4.999) (Fin 5)"
    by simp
  from classify_flood_risk_monotone far
  have "\<exists>s1 s2. severity (classify_flood_risk (Some (Fin 3))) = Some s1
               \<and> severity (classify_flood_risk (Some (Fin 20))) = Some s2
               \<and> s2 \<le> s1"
    by blast
  moreover from classify_flood_risk_monotone near
  have "\<exists>s1 s2. severity (classify_flood_risk (Some (Fin 4.999))) = Some s1
               \<and> severity (classify_flood_risk (Some (Fin 5))) = Some s2
               \<and> s2 \<le> s1"
    by blast
  ultimately show ?thesis
    using far near by blast
qed

section \<open>Properties of the urban flood zones\<close>

text \<open>The loop over any list of zones: the first zone that contains the point decides.\<close>

lemma scan_zones_first:
  "i < length zones \<Longrightarrow> point_in_bounds lat lon (zone_bounds (zones ! i))
   \<Longrightarrow> (\<forall>j<i. \<not> point_in_bounds lat lon (zone_bounds (zones ! j)))
   \<Longrightarrow> scan_zones zones lat lon = ''High Urban Flood Risk ('' @ zone_name (zones ! i) @ '')''"
proof (induction zones arbitrary: i)
  case Nil
  then show ?case by simp
next
  case (Cons zone zones)
  show ?case
  proof (cases i)
    case 0
    with Cons.prems show ?thesis by simp
  next
    case (Suc k)
    from Cons.prems(3) Suc have first: "\<not> point_in_bounds lat lon (zone_bounds zone)"
      by fastforce
    from Cons.prems(3) Suc
    have earlier: "\<forall>j<k. \<not> point_in_bounds lat lon (zone_bounds (zones ! j))"
      by fastforce
    from Cons.prems(1,2) Suc
    have "k < length zones" "point_in_bounds lat lon (zone_bounds (zones ! k))"
      by simp_all
    from Cons.IH [OF this earlier] first Suc show ?thesis
      by simp
  qed
qed

lemma scan_zones_none:
  "(\<forall>i<length zones. \<not> point_in_bounds lat lon (zone_bounds (zones ! i)))
   \<Longrightarrow> scan_zones zones lat lon = ''Low Urban Flood Risk''"
proof (induction zones)
  case Nil
  then show ?case by simp
next
  case (Cons zone zones)
  from Cons.prems have "\<not> point_in_bounds lat lon (zone_bounds zone)"
    by fastforce
  moreover from Cons.prems
  have "\<forall>i<length zones. \<not> point_in_bounds lat lon (zone_bounds (zones ! i))"
    by fastforce
  ultimately show ?case
    using Cons.IH by simp
qed

lemma check_mumbai:
  "check_urban_flood_risk (Fin 19.0) (Fin 72.8) = ''High Urban Flood Risk (Mumbai Flood Zone)''"
  by (simp add: check_urban_flood_risk_def flood_zones_def)

lemma check_outside:
  "check_urban_flood_risk (Fin 20.0) (Fin 75.0) = ''Low Urban Flood Risk''"
  by (simp add: check_urban_flood_risk_def flood_zones_def)

text \<open>
  Claim C5. For every coordinate the urban-zone query scans the fixed list of five
  zones in order; a point is in a zone when \<open>latMin \<le> lat \<le> latMax\<close> and
  \<open>lonMin \<le> lon \<le> lonMax\<close>, all four bounds included; the first zone in list order
  that contains the point is the one reported, and a point in no zone is reported as
  \<open>Low Urban Flood Risk\<close>. In particular \<open>(19.0, 72.8)\<close> is in the Mumbai Flood Zone
  and \<open>(20.0, 75.0)\<close> is in no zone.
\<close>

theorem check_urban_flood_risk_first_match:
  "length flood_zones = 5
   \<and> (\<forall>lat lon lat_min lon_min lat_max lon_max.
         point_in_bounds lat lon ((lat_min, lon_min), (lat_max, lon_max))
         = (fle lat_min lat \<and> fle lat lat_max \<and> fle lon_min lon \<and> fle lon lon_max))
   \<and> (\<forall>lat lon i.
         i < length flood_zones
         \<and> point_in_bounds lat lon (zone_bounds (flood_zones ! i))
         \<and> (\<forall>j<i. \<not> point_in_bounds lat lon (zone_bounds (flood_zones ! j)))
         \<longrightarrow> check_urban_flood_risk lat lon
             = ''High Urban Flood Risk ('' @ zone_name (flood_zones ! i) @ '')'')
   \<and> (\<forall>lat lon.
         (\<forall>i<length flood_zones. \<not> point_in_bounds lat lon (zone_bounds (flood_zones ! i)))
         \<longrightarrow> check_urban_flood_risk lat lon = ''Low Urban Flood Risk'')
   \<and> check_urban_flood_risk (Fin 19.0) (Fin 72.8) = ''High Urban Flood Risk (Mumbai Flood Zone)''
   \<and> check_urban_flood_risk (Fin 20.0) (Fin 75.0) = ''Low Urban Flood Risk''"
proof -
  have five: "length flood_zones = 5"
    by (simp add: flood_zones_def)
  have inclusive: "point_in_bounds lat lon ((lat_min, lon_min), (lat_max, lon_max))
         = (fle lat_min lat \<and> fle lat lat_max \<and> fle lon_min lon \<and> fle lon lon_max)"
    for lat lon lat_min lon_min lat_max lon_max
    by simp
  have first: "check_urban_flood_risk lat lon
             = ''High Urban Flood Risk ('' @ zone_name (flood_zones ! i) @ '')''"
    if "i < length flood_zones \<and> point_in_bounds lat lon (zone_bounds (flood_zones ! i))
         \<and> (\<forall>j<i. \<not> point_in_bounds lat lon (zone_bounds (flood_zones ! j)))"
    for lat lon i
    unfolding check_urban_flood_risk_def using that by (intro scan_zones_first) blast+
  have none: "check_urban_flood_risk lat lon = ''Low Urban Flood Risk''"
    if "\<forall>i<length flood_zones. \<not> point_in_bounds lat lon (zone_bounds (flood_zones ! i))"
    for lat lon
    unfolding check_urban_flood_risk_def using that by (rule scan_zones_none)
  from five inclusive first none check_mumbai check_outside show ?thesis
    by blast
qed

text \<open>
  The first-match theorem at a point of the second zone: the first zone does not
  contain it, the second does, and the second is reported.
\<close>

theorem check_urban_flood_risk_first_match_witness:
  "1 < length flood_zones
   \<and> point_in_bounds (Fin 13.1) (Fin 80.25) (zone_bounds (flood_zones ! 1))
   \<and> \<not> point_in_bounds (Fin 13.1) (Fin 80.25) (zone_bounds (flood_zones ! 0))
   \<and> zone_name (flood_zones ! 1) = ''Chennai Flood Zone''
   \<and> check_urban_flood_risk (Fin 13.1) (Fin 80.25)
       = ''High Urban Flood Risk (Chennai Flood Zone)''"
proof -
  have a: "1 < length flood_zones"
    by (simp add: flood_zones_def)
  have b: "point_in_bounds (Fin 13.1) (Fin 80.25) (zone_bounds (flood_zones ! 1))"
    by (simp add: flood_zones_def)
  have c: "\<not> point_in_bounds (Fin 13.1) (Fin 80.25) (zone_bounds (flood_zones ! 0))"
    by (simp add: flood_zones_def)
  then have d: "\<forall>j<1. \<not> point_in_bounds (Fin 13.1) (Fin 80.25) (zone_bounds (flood_zones ! j))"
    by simp
  have n: "zone_name (flood_zones ! 1) = ''Chennai Flood Zone''"
    by (simp add: flood_zones_def)
  from check_urban_flood_risk_first_match a b d
  have "check_urban_flood_risk (Fin 13.1) (Fin 80.25)
        = ''High Urban Flood Risk ('' @ zone_name (flood_zones ! 1) @ '')''"
    by blast
  with a b c n show ?thesis
    by simp
qed

section \<open>Properties of the nearest fire station\<close>

text \<open>An empty registry gives neither a station nor a response time.\<close>

lemma estimate_response_time_of_empty:
  "estimate_response_time_of g [] lat lon = (None, None)"
  by (simp add: estimate_response_time_of_def)

















text \<open>A time computed from a distance that is not negative is not below zero.\<close>

lemma time_not_negative: "\<forall>p q. 0 \<le> g p q \<Longrightarrow> \<not> g p q / 40 * 60 < (0::real)"
  by (simp add: not_less)

text \<open>
  Claim C1 says that the response time is absent only when the registry is empty. At
  the coordinate of the first station of the fixed registry, \<open>(19.015, 72.85)\<close>, the
  code returns the station and an absent response time: the distance to that station
  is zero, so \<^verbatim>\<open>min_time\<close> is \<^verbatim>\<open>0.0\<close>, which the condition of the \<^verbatim>\<open>return\<close> takes for false.
  This for every distance function that is never negative and is zero from a point to
  itself.
\<close>

theorem estimate_response_time_at_station:
  assumes "\<forall>p q. 0 \<le> geodesic_km p q" and "\<forall>p. geodesic_km p p = 0"
  shows "estimate_response_time geodesic_km 19.015 72.85 = (Some ''Mumbai Fire Station 1'', None)"
proof -
  have later: "\<not> geodesic_km p q / 40 * 60 < 0" for p q
    using assms(1) by (rule time_not_negative)
  from assms(2) have here: "geodesic_km (19.015, 72.85) (19.015, 72.85) = 0"
    by blast
  show ?thesis
    unfolding estimate_response_time_def estimate_response_time_of_def fire_stations_def
    using later here by simp
qed

text \<open>The same with the taxicab distance, which meets both conditions.\<close>

theorem estimate_response_time_at_station_witness:
  "(\<forall>p q. 0 \<le> taxicab_km p q) \<and> (\<forall>p. taxicab_km p p = 0)
   \<and> estimate_response_time taxicab_km 19.015 72.85 = (Some ''Mumbai Fire Station 1'', None)"
proof -
  have nonneg: "\<forall>p q. 0 \<le> taxicab_km p q"
    by (simp add: taxicab_km_def)
  have zero: "\<forall>p. taxicab_km p p = 0"
    by (simp add: taxicab_km_def)
  from estimate_response_time_at_station [OF nonneg zero] nonneg zero show ?thesis
    by blast
qed

text \<open>
  At a station's own coordinate the time is the double 0, in this arithmetic as in the
  reals: \<open>0 / 40 * 60\<close> is exact, and no distance that is not negative has a negative
  time. So the function returns the station and no time there.
\<close>

lemma minutes_nonneg: "0 \<le> d \<Longrightarrow> 0 \<le> fmul (fdiv d 40) 60"
  unfolding fmul_def fdiv_def by (intro round_f64_nonneg mult_nonneg_nonneg) simp_all

lemma minutes_zero: "fmul (fdiv 0 40) 60 = 0"
  by (simp add: fmul_def fdiv_def)

lemma estimate_response_time_f64_at_station:
  assumes "\<forall>p q. 0 \<le> geodesic_km p q" and "\<forall>p. geodesic_km p p = 0"
  shows "estimate_response_time_f64 geodesic_km 19.015 72.85
         = (Some ''Mumbai Fire Station 1'', None)"
proof -
  have later: "\<not> fmul (fdiv (geodesic_km p q) 40) 60 < 0" for p q
  proof -
    from assms(1) have "0 \<le> geodesic_km p q"
      by blast
    then have "0 \<le> fmul (fdiv (geodesic_km p q) 40) 60"
      by (rule minutes_nonneg)
    then show ?thesis
      by (simp add: not_less)
  qed
  from assms(2) have here: "geodesic_km (19.015, 72.85) (19.015, 72.85) = 0"
    by blast
  show ?thesis
    unfolding estimate_response_time_f64_def estimate_response_time_of_f64_def fire_stations_def
    using later here by (simp add: minutes_zero)
qed

section \<open>Properties of the exposure sampler\<close>



lemma seed_resets_same: "seed_resets np \<Longrightarrow> np_seed np n g = np_seed np n g'"
  unfolding seed_resets_def by blast

text \<open>
  Claim C7. The exposure sampler is deterministic. Given that seeding resets numpy's
  generator, a call returns the same data frame (the same coordinates and the same
  risk labels, in the same order) and leaves the same generator state whatever state
  it starts in; so a second call with the same arguments, made in the state the first
  one left, returns what the first returned. The count is any integer, 5 included; the
  seed is the constant 42 of the code.
\<close>

theorem generate_surrounding_exposure_deterministic:
  assumes "seed_resets np"
  shows "generate_surrounding_exposure np g lat lon num_points
         = generate_surrounding_exposure np g' lat lon num_points
       \<and> fst (generate_surrounding_exposure np
               (snd (generate_surrounding_exposure np g lat lon num_points)) lat lon num_points)
         = fst (generate_surrounding_exposure np g lat lon num_points)"
proof -
  have same: "generate_surrounding_exposure np g1 lat lon num_points
         = generate_surrounding_exposure np g2 lat lon num_points" for g1 g2
    unfolding generate_surrounding_exposure_def
    using seed_resets_same [OF assms, of 42 g1 g2] by simp
  from same [of g g']
    same [of "snd (generate_surrounding_exposure np g lat lon num_points)" g]
  show ?thesis by simp
qed






lemma seed_resets_counter_random: "seed_resets counter_random"
  by (simp add: seed_resets_def counter_random_def)


text \<open>The determinism theorem for the counter generator, centre \<open>(19.076, 72.8777)\<close>, count 5.\<close>

theorem generate_surrounding_exposure_deterministic_witness:
  "seed_resets counter_random
   \<and> generate_surrounding_exposure counter_random 0 19.076 72.8777 5
     = generate_surrounding_exposure counter_random 1234 19.076 72.8777 5
   \<and> fst (generate_surrounding_exposure counter_random
           (snd (generate_surrounding_exposure counter_random 0 19.076 72.8777 5))
           19.076 72.8777 5)
     = fst (generate_surrounding_exposure counter_random 0 19.076 72.8777 5)"
  using seed_resets_counter_random
    generate_surrounding_exposure_deterministic [OF seed_resets_counter_random,
      of 0 "19.076" "72.8777" 5 1234]
  by blast





























section \<open>Properties of the report\<close>

text \<open>
  Claim C2 says that a report made with the elevation absent and the response time
  absent shows \<open>N/A\<close> in place of both. The code does so for the elevation only. For
  every value of the other arguments: the elevation field reads \<open>Elevation: N/A meters\<close>,
  the response time field reads \<open>Fire Brigade Response Time Estimate: None minutes\<close>,
  and \<open>N/A\<close> does not occur in the latter.
\<close>

theorem create_pdf_report_absent_fields:
  "report_field ''Elevation: ''
     (create_pdf_report fmt6f str_float lat lon None flood_risk urban_flood fire_station None
        exposure_df)
   = Some ''Elevation: N/A meters''
   \<and> report_field ''Fire Brigade Response Time Estimate: ''
     (create_pdf_report fmt6f str_float lat lon None flood_risk urban_flood fire_station None
        exposure_df)
   = Some ''Fire Brigade Response Time Estimate: None minutes''
   \<and> \<not> sublist ''N/A'' ''Fire Brigade Response Time Estimate: None minutes''"
proof -
  have "\<not> sublist ''N/A'' ''Fire Brigade Response Time Estimate: None minutes''"
    by (simp add: sublist_code)
  then show ?thesis
    by (simp add: report_field_def create_pdf_report_def)
qed


section \<open>Properties of the elevation lookup\<close>

text \<open>
  Every exception that the body of the \<^verbatim>\<open>try\<close> raises is an \<^verbatim>\<open>Exception\<close>, so the handler
  catches it.
\<close>

lemma and_then_Inl:
  "and_then m f = Inl e \<Longrightarrow> m = Inl e \<or> (\<exists>x. m = Inr x \<and> f x = Inl e)"
  by (cases m) auto

lemma raise_for_status_Exception: "raise_for_status status = Inl e \<Longrightarrow> is_Exception e"
  by (auto split: if_splits)

lemma json_of_Exception: "json_of body = Inl e \<Longrightarrow> is_Exception e"
  by (cases body) auto

lemma py_get_Exception: "py_get v key = Inl e \<Longrightarrow> is_Exception e"
  by (cases v) auto

lemma py_len_Exception: "py_len v = Inl e \<Longrightarrow> is_Exception e"
  by (cases v) auto

lemma py_item0_Exception: "py_item0 v = Inl e \<Longrightarrow> is_Exception e"
  by (cases v rule: py_item0.cases) auto

lemma get_elevation_try_Exception:
  assumes "get_elevation_try requests_get url = Inl e"
  shows "is_Exception e"
proof (cases "requests_get url")
  case Transport_failure
  with assms show ?thesis
    by (simp add: get_elevation_try_def)
next
  case (Response status body)
  with assms show ?thesis
    unfolding get_elevation_try_def
    by (auto dest!: and_then_Inl split: if_splits)
      (erule raise_for_status_Exception json_of_Exception py_get_Exception
         py_len_Exception py_item0_Exception)+
qed

lemma get_elevation_returns:
  "\<exists>v shown'. get_elevation requests_get str_float lat lon shown = Inr (v, shown')
      \<and> (shown' = shown \<or> (\<exists>e. v = PNone \<and> shown' = shown @ [St_error e]))"
proof (cases "get_elevation_try requests_get (lookup_url str_float lat lon)")
  case (Inl e)
  then have "is_Exception e"
    by (rule get_elevation_try_Exception)
  with Inl show ?thesis
    by (simp add: get_elevation_def)
next
  case (Inr r)
  then show ?thesis
    by (cases r) (simp_all add: get_elevation_def)
qed

text \<open>The lookup case by case.\<close>

lemma get_elevation_transport_failure:
  "requests_get (lookup_url str_float lat lon) = Transport_failure
   \<Longrightarrow> get_elevation requests_get str_float lat lon shown
       = Inr (PNone, shown @ [St_error RequestException])"
  by (simp add: get_elevation_def get_elevation_try_def)

lemma get_elevation_error_status:
  "requests_get (lookup_url str_float lat lon) = Response status body
   \<Longrightarrow> 400 \<le> status \<Longrightarrow> status < 600
   \<Longrightarrow> get_elevation requests_get str_float lat lon shown
       = Inr (PNone, shown @ [St_error (HTTPError status)])"
  by (simp add: get_elevation_def get_elevation_try_def)

lemma get_elevation_not_json:
  "requests_get (lookup_url str_float lat lon) = Response status None
   \<Longrightarrow> \<not> (400 \<le> status \<and> status < 600)
   \<Longrightarrow> get_elevation requests_get str_float lat lon shown
       = Inr (PNone, shown @ [St_error JSONDecodeError])"
  by (simp add: get_elevation_def get_elevation_try_def)

lemma get_elevation_no_results:
  "requests_get (lookup_url str_float lat lon) = Response status (Some (PDict kvs))
   \<Longrightarrow> \<not> (400 \<le> status \<and> status < 600)
   \<Longrightarrow> map_of kvs ''results'' = None \<or> map_of kvs ''results'' = Some (PList [])
   \<Longrightarrow> get_elevation requests_get str_float lat lon shown = Inr (PNone, shown)"
  by (auto simp add: get_elevation_def get_elevation_try_def)

lemma get_elevation_no_elevation:
  "requests_get (lookup_url str_float lat lon) = Response status (Some (PDict kvs))
   \<Longrightarrow> \<not> (400 \<le> status \<and> status < 600)
   \<Longrightarrow> map_of kvs ''results'' = Some (PList (PDict r # rest))
   \<Longrightarrow> map_of r ''elevation'' = None
   \<Longrightarrow> get_elevation requests_get str_float lat lon shown = Inr (PNone, shown)"
  by (simp add: get_elevation_def get_elevation_try_def)

lemma get_elevation_found:
  "requests_get (lookup_url str_float lat lon) = Response status (Some (PDict kvs))
   \<Longrightarrow> \<not> (400 \<le> status \<and> status < 600)
   \<Longrightarrow> map_of kvs ''results'' = Some (PList (PDict r # rest))
   \<Longrightarrow> map_of r ''elevation'' = Some v
   \<Longrightarrow> get_elevation requests_get str_float lat lon shown = Inr (v, shown)"
  by (simp add: get_elevation_def get_elevation_try_def)

text \<open>
  Claim C9, as the code has it. For every coordinate, every answer of the service and
  every list of messages shown so far, the lookup returns (no exception reaches the
  caller), and it adds at most one message, in which case the value is \<open>None\<close>. On a
  transport failure, and on a response with a status code from 400 to 599 whatever its
  body, it returns \<open>None\<close> and shows one message. On a response with any other status
  code: when the body is not JSON it returns \<open>None\<close> and shows one message; when the
  body is a JSON object in which \<open>results\<close> is missing or is the empty list, or in
  which the first result is an object without \<open>elevation\<close>, it returns \<open>None\<close> and
  shows no message.
\<close>

theorem get_elevation_never_raises:
  "(\<exists>v shown'. get_elevation requests_get str_float lat lon shown = Inr (v, shown')
      \<and> (shown' = shown \<or> (\<exists>e. v = PNone \<and> shown' = shown @ [St_error e])))
   \<and> (requests_get (lookup_url str_float lat lon) = Transport_failure
        \<longrightarrow> get_elevation requests_get str_float lat lon shown
            = Inr (PNone, shown @ [St_error RequestException]))
   \<and> (\<forall>status body.
         requests_get (lookup_url str_float lat lon) = Response status body
         \<and> 400 \<le> status \<and> status < 600
         \<longrightarrow> get_elevation requests_get str_float lat lon shown
             = Inr (PNone, shown @ [St_error (HTTPError status)]))
   \<and> (\<forall>status.
         requests_get (lookup_url str_float lat lon) = Response status None
         \<and> \<not> (400 \<le> status \<and> status < 600)
         \<longrightarrow> get_elevation requests_get str_float lat lon shown
             = Inr (PNone, shown @ [St_error JSONDecodeError]))
   \<and> (\<forall>status kvs.
         requests_get (lookup_url str_float lat lon) = Response status (Some (PDict kvs))
         \<and> \<not> (400 \<le> status \<and> status < 600)
         \<and> (map_of kvs ''results'' = None \<or> map_of kvs ''results'' = Some (PList []))
         \<longrightarrow> get_elevation requests_get str_float lat lon shown = Inr (PNone, shown))
   \<and> (\<forall>status kvs r rest.
         requests_get (lookup_url str_float lat lon) = Response status (Some (PDict kvs))
         \<and> \<not> (400 \<le> status \<and> status < 600)
         \<and> map_of kvs ''results'' = Some (PList (PDict r # rest))
         \<and> map_of r ''elevation'' = None
         \<longrightarrow> get_elevation requests_get str_float lat lon shown = Inr (PNone, shown))"
  using get_elevation_returns [of requests_get str_float lat lon shown]
    get_elevation_transport_failure [of requests_get str_float lat lon shown]
    get_elevation_error_status [of requests_get str_float lat lon _ _ shown]
    get_elevation_not_json [of requests_get str_float lat lon _ shown]
    get_elevation_no_results [of requests_get str_float lat lon _ _ shown]
    get_elevation_no_elevation [of requests_get str_float lat lon _ _ _ _ shown]
  by blast

text \<open>The lookup theorem at a concrete answer of the service for each of its cases.\<close>

theorem get_elevation_never_raises_witness:
  "get_elevation (service_answering Transport_failure) str_float_stub 19.076 72.8777 []
     = Inr (PNone, [St_error RequestException])
   \<and> (400::nat) \<le> 503 \<and> (503::nat) < 600
   \<and> get_elevation (service_answering (Response 503 None)) str_float_stub 19.076 72.8777 []
     = Inr (PNone, [St_error (HTTPError 503)])
   \<and> \<not> ((400::nat) \<le> 200 \<and> (200::nat) < 600)
   \<and> get_elevation (service_answering (Response 200 None)) str_float_stub 19.076 72.8777 []
     = Inr (PNone, [St_error JSONDecodeError])
   \<and> map_of ([] :: (string \<times> pyval) list) ''results'' = None
   \<and> get_elevation (service_answering (Response 200 (Some (PDict [])))) str_float_stub
       19.076 72.8777 []
     = Inr (PNone, [])
   \<and> map_of [(''latitude'', PNum (Fin 19.076))] ''elevation'' = None
   \<and> get_elevation
       (service_answering
          (Response 200
             (Some (PDict [(''results'', PList [PDict [(''latitude'', PNum (Fin 19.076))]])]))))
       str_float_stub 19.076 72.8777 []
     = Inr (PNone, [])"
proof -
  let ?url = "lookup_url str_float_stub 19.076 72.8777"
  let ?row = "[(''latitude'', PNum (Fin 19.076))]"
  let ?body = "[(''results'', PList [PDict ?row])]"
  have answer: "service_answering outcome ?url = outcome" for outcome
    by (simp add: service_answering_def)
  have status: "(400::nat) \<le> 503 \<and> (503::nat) < 600" "\<not> ((400::nat) \<le> 200 \<and> (200::nat) < 600)"
    by simp_all
  have missing: "map_of ([] :: (string \<times> pyval) list) ''results'' = None"
    by simp
  have first: "map_of ?body ''results'' = Some (PList (PDict ?row # []))"
    by simp
  have no_elevation: "map_of ?row ''elevation'' = None"
    by simp
  from get_elevation_never_raises [of "service_answering Transport_failure" str_float_stub
      "19.076" "72.8777" "[]"] answer [of Transport_failure]
  have a: "get_elevation (service_answering Transport_failure) str_float_stub 19.076 72.8777 []
           = Inr (PNone, [] @ [St_error RequestException])"
    by blast
  from get_elevation_never_raises [of "service_answering (Response 503 None)" str_float_stub
      "19.076" "72.8777" "[]"] answer [of "Response 503 None"] status(1)
  have b: "get_elevation (service_answering (Response 503 None)) str_float_stub 19.076 72.8777 []
           = Inr (PNone, [] @ [St_error (HTTPError 503)])"
    by blast
  from get_elevation_never_raises [of "service_answering (Response 200 None)" str_float_stub
      "19.076" "72.8777" "[]"] answer [of "Response 200 None"] status(2)
  have c: "get_elevation (service_answering (Response 200 None)) str_float_stub 19.076 72.8777 []
           = Inr (PNone, [] @ [St_error JSONDecodeError])"
    by blast
  from get_elevation_never_raises [of "service_answering (Response 200 (Some (PDict [])))"
      str_float_stub "19.076" "72.8777" "[]"]
    answer [of "Response 200 (Some (PDict []))"] status(2) missing
  have d: "get_elevation (service_answering (Response 200 (Some (PDict [])))) str_float_stub
             19.076 72.8777 []
           = Inr (PNone, [])"
    by blast
  from get_elevation_never_raises [of "service_answering (Response 200 (Some (PDict ?body)))"
      str_float_stub "19.076" "72.8777" "[]"]
    answer [of "Response 200 (Some (PDict ?body))"] status(2) first no_elevation
  have e: "get_elevation (service_answering (Response 200 (Some (PDict ?body)))) str_float_stub
             19.076 72.8777 []
           = Inr (PNone, [])"
    by blast
  from a b c d e status missing no_elevation show ?thesis
    by simp
qed

text \<open>
  Claim C9 as it is stated has the lookup return \<open>None\<close> and surface a warning on
  every response whose body lacks a usable result and on every status that is not a
  success. For the body \<^verbatim>\<open>{"results": []}\<close> with status 200 the lookup returns \<open>None\<close> and
  shows nothing; for the status 300, which \<^verbatim>\<open>raise_for_status\<close> lets pass, with the body
  \<^verbatim>\<open>{"results": [{"elevation": 12}]}\<close> it returns 12.
\<close>

theorem get_elevation_warning_counterexample:
  "get_elevation (service_answering (Response 200 (Some (PDict [(''results'', PList [])]))))
     str_float_stub 19.076 72.8777 []
   = Inr (PNone, [])
   \<and> \<not> surfaces_warning []
       (get_elevation (service_answering (Response 200 (Some (PDict [(''results'', PList [])]))))
          str_float_stub 19.076 72.8777 [])
   \<and> get_elevation
       (service_answering
          (Response 300
             (Some (PDict [(''results'', PList [PDict [(''elevation'', PNum (Fin 12))]])]))))
       str_float_stub 19.076 72.8777 []
     = Inr (PNum (Fin 12), [])"
  by (simp add: get_elevation_def get_elevation_try_def service_answering_def
      surfaces_warning_def)

end
